theory Spec2Isabelle
  imports Main "HOL-Library.Sublist"
begin

section \<open>Values exchanged with the browser and the endpoint\<close>

text \<open>
  The component \<open>Translator\<close> exists twice in the repository: \<open>src/unnamed/part_000\<close>
  and \<open>src/unnamed/part_001\<close>. The definitions below follow \<open>part_000\<close>; the section
  on the second file repeats the four functions that carry logic.

  A JavaScript string is modelled as a \<open>string\<close>, one \<open>char\<close> per code unit. A field
  of the decoded JSON response is a \<open>string option\<close>: \<open>None\<close> is an absent (or
  \<open>null\<close>) field, \<open>Some s\<close> a string-valued one, as the endpoint's contract has it.
\<close>

type_synonym blob = "nat list"

record json_data =
  d_original :: "string option"
  d_transcript :: "string option"
  d_source :: "string option"
  d_text :: "string option"
  d_translation :: "string option"
  d_notes :: "string option"

text \<open>
  \<open>await fetch(...)\<close> followed by \<open>await res.json()\<close> either yields the decoded
  object or throws (network fault, body that is not JSON, and a \<open>null\<close> body, on which
  the first property access throws): all of these reach the \<open>catch\<close> of \<open>sendChunk\<close>
  before any state is touched.
\<close>

datatype response = UploadFailed | Json json_data

text \<open>Truthiness of an optional string: \<open>undefined\<close> and \<open>""\<close> are falsy.\<close>

definition truthy :: "string option \<Rightarrow> bool" where
  "truthy v = (case v of None \<Rightarrow> False | Some s \<Rightarrow> s \<noteq> [])"

text \<open>The operator \<open>a || b\<close>.\<close>

definition js_or :: "string option \<Rightarrow> string option \<Rightarrow> string option" where
  "js_or a b = (if truthy a then a else b)"

text \<open>\<open>String.prototype.split\<close> with a one-character separator, and \<open>[0]\<close>.\<close>

fun js_split :: "char \<Rightarrow> string \<Rightarrow> string list" where
  "js_split sep [] = [[]]"
| "js_split sep (c # cs) =
     (if c = sep then [] # js_split sep cs
      else (case js_split sep cs of
              [] \<Rightarrow> [[c]]
            | piece # pieces \<Rightarrow> (c # piece) # pieces))"

definition lang_code :: "string \<Rightarrow> string" where
  "lang_code tag = (case js_split (CHR ''-'') tag of [] \<Rightarrow> ''undefined'' | piece # _ \<Rightarrow> piece)"

subsection \<open>The regular expressions of \<open>sendChunk\<close>\<close>

text \<open>
  Both expressions are alternations of literals under the flag \<open>i\<close> and without the flag
  \<open>u\<close>. ECMAScript compares the canonical forms of the characters, which for the letters
  of these patterns is the upper-case letter; a code unit outside ASCII never has an ASCII
  canonical form, so it is left alone here.
\<close>

definition canonicalize :: "char \<Rightarrow> char" where
  "canonicalize c =
     (let n = (of_char c :: nat) in if 97 \<le> n \<and> n \<le> 122 then char_of (n - 32) else c)"

fun match_here :: "string \<Rightarrow> string \<Rightarrow> bool" where
  "match_here [] s = True"
| "match_here (p # ps) [] = False"
| "match_here (p # ps) (c # cs) = (canonicalize p = canonicalize c \<and> match_here ps cs)"

fun regex_test :: "string list \<Rightarrow> string \<Rightarrow> bool" where
  "regex_test alts [] = list_ex (\<lambda>a. match_here a []) alts"
| "regex_test alts (c # cs) =
     (list_ex (\<lambda>a. match_here a (c # cs)) alts \<or> regex_test alts cs)"

definition noise_pattern :: "string list" where
  "noise_pattern = [''corrupt'', ''unsupported audio'', ''deepgram error'']"

definition corrupt_pattern :: "string list" where
  "corrupt_pattern = [''corrupt'', ''unsupported audio'']"

section \<open>State of the component\<close>

text \<open>The \<open>useState\<close> variables. One value of this record is what one render sees.\<close>

text \<open>The variable \<open>notes\<close> is the field \<open>notes_state\<close>: \<open>notes\<close> is a keyword of Isabelle.\<close>

record ui_state =
  recording :: bool
  translated :: string
  original :: string
  notes_state :: string
  srcLang :: string
  tgtLang :: string
  status :: string
  activeTab :: string

record utterance =
  u_text :: string
  u_lang :: string

record form =
  f_file :: blob
  f_filename :: string
  f_src_lang :: string
  f_tgt_lang :: string

text \<open>
  A \<open>MediaRecorder\<close>. Its three handlers are closures created inside one call of
  \<open>startRecording\<close>, so they, and the \<open>sendChunk\<close> and \<open>autoSpeak\<close> they call, see the
  state variables of the render in which that \<open>startRecording\<close> was created:
  \<open>closure\<close> is that render.
\<close>

record media_recorder =
  closure :: ui_state
  timeslice :: nat
  active :: bool

text \<open>
  The component's state, its three refs, and what it has done to its collaborators: the
  queue of the speech synthesizer (its head is the utterance being spoken), the requests
  posted to the endpoint, the pending \<open>setTimeout\<close> callbacks (each with the render whose
  \<open>autoSpeak\<close> it calls) and the console.
\<close>

record world =
  ui :: ui_state
  mediaRecorderRef :: "media_recorder option"
  streamRef :: "bool option"
  shouldAutoPlayRef :: bool
  synth :: "utterance list"
  uploads :: "form list"
  timers :: "ui_state list"
  console :: "string list"

definition mount :: world where
  "mount = \<lparr> ui = \<lparr> recording = False, translated = [], original = [], notes_state = [],
                    srcLang = ''en-US'', tgtLang = ''hi-IN'', status = ''Idle'',
                    activeTab = ''translated'' \<rparr>,
              mediaRecorderRef = None, streamRef = None, shouldAutoPlayRef = False,
              synth = [], uploads = [], timers = [], console = [] \<rparr>"

subsection \<open>State setters\<close>

text \<open>
  A setter called with a function applies it to the latest state; called with a value it
  is the constant function.
\<close>

definition setTranslated :: "(string \<Rightarrow> string) \<Rightarrow> world \<Rightarrow> world" where
  "setTranslated f w = w\<lparr>ui := (ui w)\<lparr>translated := f (translated (ui w))\<rparr>\<rparr>"

definition setOriginal :: "(string \<Rightarrow> string) \<Rightarrow> world \<Rightarrow> world" where
  "setOriginal f w = w\<lparr>ui := (ui w)\<lparr>original := f (original (ui w))\<rparr>\<rparr>"

definition setNotes :: "(string \<Rightarrow> string) \<Rightarrow> world \<Rightarrow> world" where
  "setNotes f w = w\<lparr>ui := (ui w)\<lparr>notes_state := f (notes_state (ui w))\<rparr>\<rparr>"

definition setStatus :: "string \<Rightarrow> world \<Rightarrow> world" where
  "setStatus v w = w\<lparr>ui := (ui w)\<lparr>status := v\<rparr>\<rparr>"

definition setRecording :: "bool \<Rightarrow> world \<Rightarrow> world" where
  "setRecording v w = w\<lparr>ui := (ui w)\<lparr>recording := v\<rparr>\<rparr>"

definition console_log :: "string \<Rightarrow> world \<Rightarrow> world" where
  "console_log msg w = w\<lparr>console := console w @ [msg]\<rparr>"

subsection \<open>The speech synthesizer\<close>

text \<open>
  \<open>speechSynthesis.cancel()\<close> removes every utterance from the queue, the one being
  spoken included; \<open>speechSynthesis.speak(u)\<close> adds \<open>u\<close> at the end of the queue.
\<close>

definition speech_cancel :: "world \<Rightarrow> world" where
  "speech_cancel w = w\<lparr>synth := []\<rparr>"

definition speech_speak :: "utterance \<Rightarrow> world \<Rightarrow> world" where
  "speech_speak u w = w\<lparr>synth := synth w @ [u]\<rparr>"

section \<open>The functions of \<open>part_000\<close>\<close>

text \<open>
  \<open>startRecording\<close> runs to its \<open>await\<close> (the reset), and resumes when the device
  request settles. \<open>DeviceDenied\<close> is \<open>getUserMedia\<close> rejecting, for a refused
  permission as for a missing device. \<open>RecorderUnsupported\<close> is the constructor of
  \<open>MediaRecorder\<close> throwing after the stream was granted; it reaches the same \<open>catch\<close>.
\<close>

datatype device = DeviceGranted | DeviceDenied | RecorderUnsupported

definition startRecording_reset :: "world \<Rightarrow> world" where
  "startRecording_reset w =
     (setStatus ''Listening...''
        (setNotes (\<lambda>_. []) (setOriginal (\<lambda>_. []) (setTranslated (\<lambda>_. []) w))))
     \<lparr>shouldAutoPlayRef := True\<rparr>"

definition startRecording_catch :: "world \<Rightarrow> world" where
  "startRecording_catch w =
     setStatus ''Microphone access denied or not available''
       (console_log ''Microphone error:'' w)"

definition startRecording_resume :: "ui_state \<Rightarrow> device \<Rightarrow> world \<Rightarrow> world" where
  "startRecording_resume render dev w =
     (case dev of
        DeviceDenied \<Rightarrow> startRecording_catch w
      | RecorderUnsupported \<Rightarrow> startRecording_catch (w\<lparr>streamRef := Some True\<rparr>)
      | DeviceGranted \<Rightarrow>
          setRecording True
            (w\<lparr>streamRef := Some True,
               mediaRecorderRef :=
                 Some \<lparr>closure = render, timeslice = 3000, active = True\<rparr>\<rparr>))"

definition startRecording :: "ui_state \<Rightarrow> device \<Rightarrow> world \<Rightarrow> world" where
  "startRecording render dev w = startRecording_resume render dev (startRecording_reset w)"

definition stopRecording :: "world \<Rightarrow> world" where
  "stopRecording w =
     setRecording False
       (w\<lparr>mediaRecorderRef := map_option (\<lambda>r. r\<lparr>active := False\<rparr>) (mediaRecorderRef w),
          streamRef := map_option (\<lambda>_. False) (streamRef w)\<rparr>)"

text \<open>The merge of one fragment into an accumulated text, with its separator.\<close>

definition append_with :: "string \<Rightarrow> string \<Rightarrow> string \<Rightarrow> string" where
  "append_with sep frag prev = (if prev \<noteq> [] then prev @ sep @ frag else frag)"

text \<open>\<open>sendChunk\<close> up to its \<open>await fetch\<close>: the form is built and posted.\<close>

definition sendChunk_post :: "ui_state \<Rightarrow> blob \<Rightarrow> world \<Rightarrow> world" where
  "sendChunk_post render b w =
     w\<lparr>uploads := uploads w @
          [\<lparr>f_file = b, f_filename = ''chunk.webm'',
            f_src_lang = lang_code (srcLang render),
            f_tgt_lang = lang_code (tgtLang render)\<rparr>]\<rparr>"

text \<open>The rest of \<open>sendChunk\<close>, once the request has settled.\<close>

definition sendChunk_settle :: "response \<Rightarrow> world \<Rightarrow> world" where
  "sendChunk_settle resp w =
     (case resp of
        UploadFailed \<Rightarrow>
          setNotes (append_with '' | '' ''Network error'') (console_log ''Upload failed'' w)
      | Json d \<Rightarrow>
          (let origCandidate =
                 js_or (js_or (js_or (d_original d) (d_transcript d)) (d_source d)) (d_text d);
               w1 = (if truthy origCandidate
                     then setOriginal (append_with '' '' (the origCandidate)) w else w);
               w2 = (if truthy (d_translation d)
                     then setTranslated (append_with '' '' (the (d_translation d))) w1 else w1);
               w3 = (if truthy (d_notes d) \<and> \<not> regex_test noise_pattern (the (d_notes d))
                     then setNotes (append_with '' | '' (the (d_notes d))) w2 else w2)
           in if truthy (d_notes d) \<and> regex_test corrupt_pattern (the (d_notes d))
              then console_log ''Ignored Deepgram chunk error:'' w3 else w3))"

definition sendChunk :: "ui_state \<Rightarrow> blob \<Rightarrow> response \<Rightarrow> world \<Rightarrow> world" where
  "sendChunk render b resp w = sendChunk_settle resp (sendChunk_post render b w)"

definition autoSpeak :: "ui_state \<Rightarrow> world \<Rightarrow> world" where
  "autoSpeak render w =
     (if translated render = [] \<or> \<not> shouldAutoPlayRef w then w
      else (speech_speak \<lparr>u_text = translated render, u_lang = tgtLang render\<rparr>
              (speech_cancel w))
           \<lparr>shouldAutoPlayRef := False\<rparr>)"

definition manualSpeak :: "ui_state \<Rightarrow> world \<Rightarrow> world" where
  "manualSpeak render w =
     (if translated render = [] then w
      else speech_speak \<lparr>u_text = translated render, u_lang = tgtLang render\<rparr>
             (speech_cancel w))"

subsection \<open>The handlers of the recorder\<close>

definition ondataavailable :: "ui_state \<Rightarrow> blob \<Rightarrow> response \<Rightarrow> world \<Rightarrow> world" where
  "ondataavailable render b resp w = (if length b > 0 then sendChunk render b resp w else w)"

definition onstop :: "ui_state \<Rightarrow> world \<Rightarrow> world" where
  "onstop render w = (setStatus ''Stopped'' w)\<lparr>timers := timers w @ [render]\<rparr>"

definition onerror :: "world \<Rightarrow> world" where
  "onerror w = setStatus ''Recorder error'' (console_log ''MediaRecorder error:'' w)"

definition timeout_fires :: "world \<Rightarrow> world" where
  "timeout_fires w =
     (case timers w of [] \<Rightarrow> w | render # rest \<Rightarrow> autoSpeak render (w\<lparr>timers := rest\<rparr>))"

subsection \<open>Events\<close>

text \<open>
  The button is bound to \<open>recording ? stopRecording : startRecording\<close> and the replay
  button to \<open>manualSpeak\<close>, both of the latest render. The events of the recorder run
  the handlers installed on it.
\<close>

definition click_record_button :: "device \<Rightarrow> world \<Rightarrow> world" where
  "click_record_button dev w =
     (if recording (ui w) then stopRecording w else startRecording (ui w) dev w)"

definition click_replay :: "world \<Rightarrow> world" where
  "click_replay w = manualSpeak (ui w) w"

datatype event =
    ClickRecordButton device
  | ChunkSettled blob response
  | RecorderStopped
  | RecorderFailed
  | TimeoutElapsed
  | ClickReplay

fun step :: "event \<Rightarrow> world \<Rightarrow> world" where
  "step (ClickRecordButton dev) w = click_record_button dev w"
| "step (ChunkSettled b resp) w =
     (case mediaRecorderRef w of None \<Rightarrow> w | Some r \<Rightarrow> ondataavailable (closure r) b resp w)"
| "step RecorderStopped w =
     (case mediaRecorderRef w of None \<Rightarrow> w | Some r \<Rightarrow> onstop (closure r) w)"
| "step RecorderFailed w = (case mediaRecorderRef w of None \<Rightarrow> w | Some r \<Rightarrow> onerror w)"
| "step TimeoutElapsed w = timeout_fires w"
| "step ClickReplay w = click_replay w"

definition run :: "event list \<Rightarrow> world \<Rightarrow> world" where
  "run es w = foldl (\<lambda>v e. step e v) w es"

section \<open>The functions of \<open>part_001\<close>\<close>

text \<open>
  The second file has the same four functions; its \<open>sendChunk\<close> lacks the
  \<open>console.debug\<close> of the first.
\<close>

definition startRecording_001 :: "ui_state \<Rightarrow> device \<Rightarrow> world \<Rightarrow> world" where
  "startRecording_001 render dev w =
     (let w0 = (setStatus ''Listening...''
                  (setNotes (\<lambda>_. []) (setOriginal (\<lambda>_. []) (setTranslated (\<lambda>_. []) w))))
               \<lparr>shouldAutoPlayRef := True\<rparr>;
          failed = (\<lambda>v. setStatus ''Microphone access denied or not available''
                          (console_log ''Microphone error:'' v))
      in case dev of
           DeviceDenied \<Rightarrow> failed w0
         | RecorderUnsupported \<Rightarrow> failed (w0\<lparr>streamRef := Some True\<rparr>)
         | DeviceGranted \<Rightarrow>
             setRecording True
               (w0\<lparr>streamRef := Some True,
                   mediaRecorderRef :=
                     Some \<lparr>closure = render, timeslice = 3000, active = True\<rparr>\<rparr>))"

definition sendChunk_001 :: "ui_state \<Rightarrow> blob \<Rightarrow> response \<Rightarrow> world \<Rightarrow> world" where
  "sendChunk_001 render b resp w =
     (let posted = w\<lparr>uploads := uploads w @
                       [\<lparr>f_file = b, f_filename = ''chunk.webm'',
                         f_src_lang = lang_code (srcLang render),
                         f_tgt_lang = lang_code (tgtLang render)\<rparr>]\<rparr>
      in case resp of
           UploadFailed \<Rightarrow>
             setNotes (append_with '' | '' ''Network error'')
               (console_log ''Upload failed'' posted)
         | Json d \<Rightarrow>
             (let origCandidate =
                    js_or (js_or (js_or (d_original d) (d_transcript d)) (d_source d))
                      (d_text d);
                  w1 = (if truthy origCandidate
                        then setOriginal (append_with '' '' (the origCandidate)) posted
                        else posted);
                  w2 = (if truthy (d_translation d)
                        then setTranslated (append_with '' '' (the (d_translation d))) w1
                        else w1)
              in if truthy (d_notes d) \<and> \<not> regex_test noise_pattern (the (d_notes d))
                 then setNotes (append_with '' | '' (the (d_notes d))) w2 else w2))"

definition autoSpeak_001 :: "ui_state \<Rightarrow> world \<Rightarrow> world" where
  "autoSpeak_001 render w =
     (if translated render = [] \<or> \<not> shouldAutoPlayRef w then w
      else (speech_speak \<lparr>u_text = translated render, u_lang = tgtLang render\<rparr>
              (speech_cancel w))
           \<lparr>shouldAutoPlayRef := False\<rparr>)"

definition manualSpeak_001 :: "ui_state \<Rightarrow> world \<Rightarrow> world" where
  "manualSpeak_001 render w =
     (if translated render = [] then w
      else speech_speak \<lparr>u_text = translated render, u_lang = tgtLang render\<rparr>
             (speech_cancel w))"

section \<open>Notions of the specification\<close>

text \<open>The space-joined concatenation of a list of texts.\<close>

fun space_join :: "string list \<Rightarrow> string" where
  "space_join [] = []"
| "space_join [t] = t"
| "space_join (t # u # us) = t @ '' '' @ space_join (u # us)"

text \<open>The translation a response carries; the empty text when it carries none.\<close>

definition translation_of :: "response \<Rightarrow> string" where
  "translation_of resp =
     (case resp of
        UploadFailed \<Rightarrow> []
      | Json d \<Rightarrow> (case d_translation d of None \<Rightarrow> [] | Some t \<Rightarrow> t))"

text \<open>
  Containment of a substring without regard to the case of ASCII letters, both texts
  brought to lower case.
\<close>

definition to_lower :: "char \<Rightarrow> char" where
  "to_lower c =
     (let n = (of_char c :: nat) in if 65 \<le> n \<and> n \<le> 90 then char_of (n + 32) else c)"

definition ci_contains :: "string \<Rightarrow> string \<Rightarrow> bool" where
  "ci_contains sub s = sublist (map to_lower sub) (map to_lower s)"

definition suppressed :: "string \<Rightarrow> bool" where
  "suppressed n =
     (ci_contains ''corrupt'' n \<or> ci_contains ''unsupported audio'' n
      \<or> ci_contains ''deepgram error'' n)"

section \<open>Scenarios\<close>

text \<open>Responses, event sequences and the arrival of a list of chunk responses.\<close>

definition hello :: json_data where
  "hello = \<lparr>d_original = None, d_transcript = None, d_source = None, d_text = None,
              d_translation = Some ''Hello'', d_notes = None\<rparr>"

definition there :: json_data where
  "there = \<lparr>d_original = None, d_transcript = None, d_source = None, d_text = None,
              d_translation = Some ''there'', d_notes = None\<rparr>"

definition first_session :: "event list" where
  "first_session =
     [ClickRecordButton DeviceGranted, ChunkSettled [1] (Json hello),
      ClickRecordButton DeviceGranted, RecorderStopped, TimeoutElapsed]"

definition replay_then_restart :: "event list" where
  "replay_then_restart =
     [ClickRecordButton DeviceGranted, ChunkSettled [1] (Json hello), ClickReplay,
      ClickRecordButton DeviceGranted, RecorderStopped, TimeoutElapsed,
      ClickRecordButton DeviceGranted]"

definition chunks_arrive :: "ui_state \<Rightarrow> (blob \<times> response) list \<Rightarrow> world \<Rightarrow> world" where
  "chunks_arrive render chunks w = foldl (\<lambda>v (b, resp). sendChunk render b resp v) w chunks"

definition noisy :: json_data where
  "noisy = \<lparr>d_original = None, d_transcript = None, d_source = None, d_text = None,
              d_translation = Some ''Hello'', d_notes = Some ''Chunk CORRUPT, skipped''\<rparr>"

definition second_session :: "event list" where
  "second_session =
     first_session @
     [ClickRecordButton DeviceGranted, ChunkSettled [2] (Json there),
      ClickRecordButton DeviceGranted, RecorderStopped, TimeoutElapsed]"

text \<open>The three accumulated texts of a state.\<close>

definition texts :: "world \<Rightarrow> string \<times> string \<times> string" where
  "texts w = (original (ui w), translated (ui w), notes_state (ui w))"

section \<open>Properties\<close>


lemmas setter_defs =
  setTranslated_def setOriginal_def setNotes_def setStatus_def setRecording_def console_log_def

lemma append_with_prefix: "prefix prev (append_with sep frag prev)"
  by (simp add: append_with_def)

lemma post_ui [simp]: "ui (sendChunk_post render b w) = ui w"
  by (simp add: sendChunk_post_def)

lemma settle_translated:
  "translated (ui (sendChunk_settle resp w)) =
     (if translation_of resp = [] then translated (ui w)
      else append_with '' '' (translation_of resp) (translated (ui w)))"
  by (cases resp)
     (auto simp: sendChunk_settle_def translation_of_def truthy_def Let_def setter_defs
           split: option.splits)

lemma space_join_snoc:
  "space_join (ts @ [t]) = (if ts = [] then t else space_join ts @ '' '' @ t)"
  by (induction ts rule: space_join.induct) simp_all

lemma space_join_Nil_iff:
  "\<forall>t \<in> set ts. t \<noteq> [] \<Longrightarrow> space_join ts = [] \<longleftrightarrow> ts = []"
  by (induction ts rule: space_join.induct) simp_all

lemma of_char_lt: "(of_char c :: nat) < 256"
  by (cases c) simp

lemma canon_lower [simp]: "canonicalize (to_lower c) = canonicalize c"
  using of_char_lt [of c] by (auto simp: canonicalize_def to_lower_def Let_def)

lemma lower_canon [simp]: "to_lower (canonicalize c) = to_lower c"
  using of_char_lt [of c] by (auto simp: canonicalize_def to_lower_def Let_def)

lemma match_here_prefix:
  "match_here p s \<longleftrightarrow> prefix (map canonicalize p) (map canonicalize s)"
  by (induction p s rule: match_here.induct) simp_all

lemma regex_test_sublist:
  "regex_test alts s \<longleftrightarrow> (\<exists>a \<in> set alts. sublist (map canonicalize a) (map canonicalize s))"
  by (induction s) (auto simp: list_ex_iff match_here_prefix sublist_Cons_right)

lemma sublist_map_switch:
  assumes "\<And>c. g (f c) = g c" and "sublist (map f a) (map f s)"
  shows "sublist (map g a) (map g s)"
proof -
  from assms(2) obtain ps ss where "map f s = ps @ map f a @ ss"
    by (auto simp: sublist_def)
  then have "map g (map f s) = map g ps @ map g (map f a) @ map g ss"
    by simp
  moreover have "g \<circ> f = g"
    using assms(1) by auto
  ultimately have "map g s = map g ps @ map g a @ map g ss"
    by simp
  then show ?thesis
    by (auto simp: sublist_def)
qed

lemma canon_sublist_iff:
  "sublist (map canonicalize a) (map canonicalize s) \<longleftrightarrow> ci_contains a s"
  unfolding ci_contains_def
  using sublist_map_switch [of to_lower canonicalize a s]
        sublist_map_switch [of canonicalize to_lower a s]
  by auto

lemma noise_test_iff: "regex_test noise_pattern n \<longleftrightarrow> suppressed n"
  by (simp add: regex_test_sublist noise_pattern_def suppressed_def canon_sublist_iff)


lemma chunks_arrive_snoc:
  "chunks_arrive render (chunks @ [(b, resp)]) w =
     sendChunk render b resp (chunks_arrive render chunks w)"
  by (simp add: chunks_arrive_def)

lemma sendChunk_translated:
  "translated (ui (sendChunk render b resp w)) =
     (if translation_of resp = [] then translated (ui w)
      else append_with '' '' (translation_of resp) (translated (ui w)))"
  by (simp add: sendChunk_def settle_translated)

lemma startRecording_translated: "translated (ui (startRecording render dev w)) = []"
  by (cases dev)
     (simp_all add: startRecording_def startRecording_resume_def startRecording_reset_def
        startRecording_catch_def setter_defs)

text \<open>
  Claim C1. Within one session, begun by \<open>startRecording\<close>, after any list of chunk
  responses in their order of arrival the translated text is the space-joined
  concatenation of the non-empty translations they carry, in that order.
\<close>

theorem translated_is_space_join:
  "translated (ui (chunks_arrive render chunks (startRecording render' DeviceGranted w))) =
     space_join (filter (\<lambda>t. t \<noteq> []) (map (\<lambda>(b, resp). translation_of resp) chunks))"
proof (induction chunks rule: rev_induct)
  case Nil
  show ?case
    by (simp add: chunks_arrive_def startRecording_translated)
next
  case (snoc c chunks)
  obtain b resp where c: "c = (b, resp)"
    by (cases c)
  let ?ts = "filter (\<lambda>t. t \<noteq> []) (map (\<lambda>(b, resp). translation_of resp) chunks)"
  have empty: "space_join ?ts = [] \<longleftrightarrow> ?ts = []"
    by (rule space_join_Nil_iff) simp
  show ?case
  proof (cases "translation_of resp = []")
    case True
    with snoc c show ?thesis
      by (simp add: chunks_arrive_snoc sendChunk_translated)
  next
    case False
    with snoc c empty show ?thesis
      by (simp add: chunks_arrive_snoc sendChunk_translated space_join_snoc append_with_def)
  qed
qed

theorem translated_is_space_join_witness:
  "translated (ui (chunks_arrive (ui mount) [([1], Json hello), ([2], Json there)]
       (startRecording (ui mount) DeviceGranted mount))) = ''Hello there''"
  using translated_is_space_join
    [of "ui mount" "[([1], Json hello), ([2], Json there)]" "ui mount" mount]
  by (simp add: translation_of_def hello_def there_def)


lemmas start_defs =
  startRecording_def startRecording_resume_def startRecording_reset_def
  startRecording_catch_def

text \<open>
  Claim C2. Whatever state a previous session left, \<open>startRecording\<close> empties the
  original text, the translated text and the notes and sets the status to
  \<open>Listening...\<close> before it waits for the device; no chunk is uploaded by it; the
  texts are still empty when it resumes, and the status is still \<open>Listening...\<close> when
  the device was granted.
\<close>

theorem start_resets_texts:
  "original (ui (startRecording_reset w)) = [] \<and>
   translated (ui (startRecording_reset w)) = [] \<and>
   notes_state (ui (startRecording_reset w)) = [] \<and>
   status (ui (startRecording_reset w)) = ''Listening...'' \<and>
   uploads (startRecording_reset w) = uploads w \<and>
   original (ui (startRecording render dev w)) = [] \<and>
   translated (ui (startRecording render dev w)) = [] \<and>
   notes_state (ui (startRecording render dev w)) = [] \<and>
   uploads (startRecording render dev w) = uploads w \<and>
   status (ui (startRecording render DeviceGranted w)) = ''Listening...''"
  by (cases dev) (simp_all add: start_defs setter_defs)

text \<open>
  Claim C4. When the upload of a chunk fails, \<open>Network error\<close> is appended to the
  notes (it is the whole of the notes when they were empty); the translated and the
  original text, the status, the recording flag, the recorder and the stream are
  unchanged, and the one request of this chunk is the only one posted.
\<close>

theorem upload_failure_noted:
  "notes_state (ui (sendChunk render b UploadFailed w)) =
     (if notes_state (ui w) = [] then ''Network error''
      else notes_state (ui w) @ '' | Network error'') \<and>
   translated (ui (sendChunk render b UploadFailed w)) = translated (ui w) \<and>
   original (ui (sendChunk render b UploadFailed w)) = original (ui w) \<and>
   status (ui (sendChunk render b UploadFailed w)) = status (ui w) \<and>
   recording (ui (sendChunk render b UploadFailed w)) = recording (ui w) \<and>
   mediaRecorderRef (sendChunk render b UploadFailed w) = mediaRecorderRef w \<and>
   streamRef (sendChunk render b UploadFailed w) = streamRef w \<and>
   timers (sendChunk render b UploadFailed w) = timers w \<and>
   length (uploads (sendChunk render b UploadFailed w)) = Suc (length (uploads w))"
  by (simp add: sendChunk_def sendChunk_settle_def sendChunk_post_def setter_defs
        append_with_def)

theorem upload_failure_noted_witness:
  "notes_state (ui (sendChunk (ui mount) [1] UploadFailed
      (startRecording (ui mount) DeviceGranted mount))) = ''Network error'' \<and>
   status (ui (sendChunk (ui mount) [1] UploadFailed
      (startRecording (ui mount) DeviceGranted mount))) = ''Listening...''"
  using upload_failure_noted
    [of "ui mount" "[1]" "startRecording (ui mount) DeviceGranted mount"]
  by (simp add: start_defs setter_defs mount_def)

lemma sendChunk_json_notes:
  "notes_state (ui (sendChunk render b (Json d) w)) =
     (if truthy (d_notes d) \<and> \<not> regex_test noise_pattern (the (d_notes d))
      then append_with '' | '' (the (d_notes d)) (notes_state (ui w))
      else notes_state (ui w))"
  by (simp add: sendChunk_def sendChunk_settle_def sendChunk_post_def setter_defs Let_def)

lemma sendChunk_json_translated:
  "translated (ui (sendChunk render b (Json d) w)) =
     (if truthy (d_translation d)
      then append_with '' '' (the (d_translation d)) (translated (ui w))
      else translated (ui w))"
  by (simp add: sendChunk_def sendChunk_settle_def sendChunk_post_def setter_defs Let_def)

lemma sendChunk_json_original:
  "original (ui (sendChunk render b (Json d) w)) =
     (let c = js_or (js_or (js_or (d_original d) (d_transcript d)) (d_source d)) (d_text d)
      in if truthy c then append_with '' '' (the c) (original (ui w)) else original (ui w))"
  by (simp add: sendChunk_def sendChunk_settle_def sendChunk_post_def setter_defs Let_def)

lemma append_with_neq: "frag \<noteq> [] \<Longrightarrow> append_with sep frag prev \<noteq> prev"
  by (simp add: append_with_def)

text \<open>
  Claim C5. The note of a chunk response is appended to the notes exactly when it does
  not contain, without regard to case, \<open>corrupt\<close>, \<open>unsupported audio\<close> or
  \<open>deepgram error\<close>; a note that does leaves the notes as they were, whatever else it
  contains, and the original and the translated text are merged as if the response had
  carried no note.
\<close>

theorem note_appended_iff_not_suppressed:
  assumes "d_notes d = Some n" and "n \<noteq> []"
  shows "(notes_state (ui (sendChunk render b (Json d) w)) =
            append_with '' | '' n (notes_state (ui w)) \<longleftrightarrow> \<not> suppressed n) \<and>
         (notes_state (ui (sendChunk render b (Json d) w)) = notes_state (ui w)
            \<longleftrightarrow> suppressed n) \<and>
         translated (ui (sendChunk render b (Json d) w)) =
           translated (ui (sendChunk render b (Json (d\<lparr>d_notes := None\<rparr>)) w)) \<and>
         original (ui (sendChunk render b (Json d) w)) =
           original (ui (sendChunk render b (Json (d\<lparr>d_notes := None\<rparr>)) w))"
  using assms append_with_neq [of n "'' | ''" "notes_state (ui w)"]
  by (auto simp: sendChunk_json_notes sendChunk_json_translated sendChunk_json_original
        noise_test_iff truthy_def)

theorem note_appended_iff_not_suppressed_witness:
  "suppressed ''Chunk CORRUPT, skipped'' \<and>
   notes_state (ui (sendChunk (ui mount) [1] (Json noisy) mount)) = notes_state (ui mount)"
proof -
  have n: "d_notes noisy = Some ''Chunk CORRUPT, skipped''"
    by (simp add: noisy_def)
  have "regex_test noise_pattern ''Chunk CORRUPT, skipped''"
    by code_simp
  then have s: "suppressed ''Chunk CORRUPT, skipped''"
    by (rule iffD1 [OF noise_test_iff])
  from note_appended_iff_not_suppressed [OF n, of "ui mount" "[1]" mount] s
  show ?thesis by simp
qed

text \<open>
  Claim C6. When the device request of \<open>startRecording\<close> is denied, the status is the
  error message, the recording flag stays false, and neither a recorder nor a stream is
  created or started: no chunk will be produced.
\<close>

theorem denied_device_does_not_start:
  assumes "\<not> recording (ui w)"
  shows "status (ui (startRecording render DeviceDenied w)) =
           ''Microphone access denied or not available'' \<and>
         \<not> recording (ui (startRecording render DeviceDenied w)) \<and>
         mediaRecorderRef (startRecording render DeviceDenied w) = mediaRecorderRef w \<and>
         streamRef (startRecording render DeviceDenied w) = streamRef w \<and>
         uploads (startRecording render DeviceDenied w) = uploads w \<and>
         timers (startRecording render DeviceDenied w) = timers w"
  using assms by (simp add: start_defs setter_defs)

theorem denied_device_does_not_start_witness:
  "\<not> recording (ui mount) \<and>
   status (ui (click_record_button DeviceDenied mount)) =
     ''Microphone access denied or not available'' \<and>
   \<not> recording (ui (click_record_button DeviceDenied mount)) \<and>
   mediaRecorderRef (click_record_button DeviceDenied mount) = None"
proof -
  have idle: "\<not> recording (ui mount)"
    by (simp add: mount_def)
  have none: "mediaRecorderRef mount = None"
    by (simp add: mount_def)
  from denied_device_does_not_start [OF idle, of "ui mount"] idle none
  show ?thesis by (simp add: click_record_button_def)
qed


lemmas event_defs =
  run_def click_record_button_def click_replay_def ondataavailable_def onstop_def
  timeout_fires_def stopRecording_def sendChunk_def sendChunk_post_def sendChunk_settle_def
  autoSpeak_def manualSpeak_def speech_cancel_def speech_speak_def truthy_def js_or_def
  append_with_def

text \<open>
  Claim C3, evaluated on the first session after the component is mounted: record, one
  chunk response with the translation \<open>Hello\<close>, stop, the recorder's stop event, the
  350 ms timeout. The translated text is \<open>Hello\<close> and the right to play is still
  armed, yet nothing was given to the synthesizer: the \<open>autoSpeak\<close> that the timeout
  calls reads the translated text of the render in which recording was started.
\<close>

theorem first_session_never_auto_plays:
  "translated (ui (run first_session mount)) = ''Hello'' \<and>
   status (ui (run first_session mount)) = ''Stopped'' \<and>
   shouldAutoPlayRef (run first_session mount) \<and>
   timers (run first_session mount) = [] \<and>
   synth (run first_session mount) = []"
  by (simp add: first_session_def mount_def hello_def event_defs start_defs setter_defs)

lemma second_session_plays_first_text:
  "translated (ui (run second_session mount)) = ''there'' \<and>
   synth (run second_session mount) = [\<lparr>u_text = ''Hello'', u_lang = ''hi-IN''\<rparr>]"
  by (simp add: second_session_def first_session_def mount_def hello_def there_def
        event_defs start_defs setter_defs)

lemma autoSpeak_cases:
  "autoSpeak render w =
     (if translated render \<noteq> [] \<and> shouldAutoPlayRef w
      then w\<lparr>synth := [\<lparr>u_text = translated render, u_lang = tgtLang render\<rparr>],
             shouldAutoPlayRef := False\<rparr>
      else w)"
  by (simp add: autoSpeak_def speech_cancel_def speech_speak_def)

lemma autoSpeak_disarmed: "\<not> shouldAutoPlayRef w \<Longrightarrow> autoSpeak render w = w"
  by (simp add: autoSpeak_cases)

lemma autoSpeak_fires_once:
  "synth (autoSpeak render w) \<noteq> synth w \<Longrightarrow>
     autoSpeak render' (autoSpeak render w) = autoSpeak render w"
  by (auto simp: autoSpeak_cases)

lemma manualSpeak_keeps_right:
  "shouldAutoPlayRef (manualSpeak render w) = shouldAutoPlayRef w"
  by (simp add: manualSpeak_def speech_cancel_def speech_speak_def)

text \<open>
  Claim C7, as stated, fails in the second session of this run: a replay in the first
  session is being spoken, the second session has emptied the translated text, and
  \<open>replay\<close> then neither cancels the playback nor speaks.
\<close>

theorem replay_guard_counterexample:
  "translated (ui (run replay_then_restart mount)) = [] \<and>
   synth (run replay_then_restart mount) = [\<lparr>u_text = ''Hello'', u_lang = ''hi-IN''\<rparr>] \<and>
   synth (click_replay (run replay_then_restart mount)) =
     [\<lparr>u_text = ''Hello'', u_lang = ''hi-IN''\<rparr>] \<and>
   synth (click_replay (run replay_then_restart mount)) \<noteq>
     [\<lparr>u_text = translated (ui (run replay_then_restart mount)),
       u_lang = tgtLang (ui (run replay_then_restart mount))\<rparr>]"
  by (simp add: replay_then_restart_def mount_def hello_def event_defs start_defs setter_defs)

text \<open>
  Claim C7, amended. When the translated text is not empty, \<open>replay\<close> cancels whatever
  is in the synthesizer's queue and speaks the translated text in the target language,
  so that after one call and after two calls the queue holds exactly that one utterance;
  the state and the right to play automatically are untouched. When the translated text
  is empty, \<open>replay\<close> does nothing.
\<close>

theorem replay_speaks_nonempty_text:
  "click_replay w =
     (if translated (ui w) = [] then w
      else w\<lparr>synth := [\<lparr>u_text = translated (ui w), u_lang = tgtLang (ui w)\<rparr>]\<rparr>) \<and>
   click_replay (click_replay w) = click_replay w \<and>
   ui (click_replay w) = ui w \<and>
   shouldAutoPlayRef (click_replay w) = shouldAutoPlayRef w"
  by (simp add: click_replay_def manualSpeak_def speech_cancel_def speech_speak_def)

theorem replay_speaks_nonempty_text_witness:
  "synth (click_replay (click_replay
      (run [ClickRecordButton DeviceGranted, ChunkSettled [1] (Json hello)] mount))) =
     [\<lparr>u_text = ''Hello'', u_lang = ''hi-IN''\<rparr>]"
proof -
  let ?w = "run [ClickRecordButton DeviceGranted, ChunkSettled [1] (Json hello)] mount"
  have t: "translated (ui ?w) = ''Hello''" and l: "tgtLang (ui ?w) = ''hi-IN''"
    by (simp_all add: mount_def hello_def event_defs start_defs setter_defs)
  note r = replay_speaks_nonempty_text [of ?w]
  from r have twice: "click_replay (click_replay ?w) = click_replay ?w"
    by blast
  from r have once: "click_replay ?w =
      (if translated (ui ?w) = [] then ?w
       else ?w\<lparr>synth := [\<lparr>u_text = translated (ui ?w), u_lang = tgtLang (ui ?w)\<rparr>]\<rparr>)"
    by blast
  from t l show ?thesis
    unfolding twice by (subst once) simp
qed

text \<open>
  Claim C8. Every merge of a chunk response, decoded or failed, leaves the previous
  original text, translated text and notes as prefixes of the new ones.
\<close>

theorem texts_append_only:
  "prefix (original (ui w)) (original (ui (sendChunk render b resp w))) \<and>
   prefix (translated (ui w)) (translated (ui (sendChunk render b resp w))) \<and>
   prefix (notes_state (ui w)) (notes_state (ui (sendChunk render b resp w)))"
proof (cases resp)
  case UploadFailed
  then show ?thesis
    by (simp add: sendChunk_def sendChunk_settle_def sendChunk_post_def setter_defs
          append_with_prefix)
next
  case (Json d)
  then show ?thesis
    by (simp add: sendChunk_json_original sendChunk_json_translated sendChunk_json_notes
          append_with_prefix Let_def)
qed

lemma js_split_hd:
  "js_split sep s = takeWhile (\<lambda>c. c \<noteq> sep) s # tl (js_split sep s)"
  by (induction s) (auto split: list.splits)

lemma lang_code_takeWhile: "lang_code tag = takeWhile (\<lambda>c. c \<noteq> CHR ''-'') tag"
  by (subst lang_code_def, subst js_split_hd) simp

text \<open>
  Claim C9. The request of a chunk carries, as \<open>src_lang\<close> and \<open>tgt_lang\<close>, the source
  and the target language tag cut at the first hyphen; for the three tags of the
  selectors these are \<open>en\<close>, \<open>hi\<close> and \<open>es\<close>.
\<close>

theorem upload_language_codes:
  "uploads (sendChunk render b resp w) =
     uploads w @
       [\<lparr>f_file = b, f_filename = ''chunk.webm'',
         f_src_lang = takeWhile (\<lambda>c. c \<noteq> CHR ''-'') (srcLang render),
         f_tgt_lang = takeWhile (\<lambda>c. c \<noteq> CHR ''-'') (tgtLang render)\<rparr>] \<and>
   lang_code ''en-US'' = ''en'' \<and> lang_code ''hi-IN'' = ''hi'' \<and> lang_code ''es-ES'' = ''es''"
  by (cases resp)
     (simp_all add: sendChunk_def sendChunk_settle_def sendChunk_post_def setter_defs
        lang_code_takeWhile Let_def)

theorem upload_language_codes_witness:
  "map f_src_lang (uploads (run [ClickRecordButton DeviceGranted,
      ChunkSettled [1] (Json hello)] mount)) = [''en''] \<and>
   map f_tgt_lang (uploads (run [ClickRecordButton DeviceGranted,
      ChunkSettled [1] (Json hello)] mount)) = [''hi'']"
proof -
  have "run [ClickRecordButton DeviceGranted, ChunkSettled [1] (Json hello)] mount =
        sendChunk (ui mount) [1] (Json hello) (startRecording (ui mount) DeviceGranted mount)"
    by (simp add: run_def click_record_button_def ondataavailable_def start_defs
          setter_defs mount_def)
  moreover have "uploads (startRecording (ui mount) DeviceGranted mount) = [] \<and>
      srcLang (ui mount) = ''en-US'' \<and> tgtLang (ui mount) = ''hi-IN''"
    by (simp add: start_defs setter_defs mount_def)
  ultimately show ?thesis
    using upload_language_codes
      [of "ui mount" "[1]" "Json hello" "startRecording (ui mount) DeviceGranted mount"]
    by simp
qed

lemma sendChunk_001_ui: "ui (sendChunk_001 render b resp w) = ui (sendChunk render b resp w)"
  by (cases resp)
     (simp_all add: sendChunk_001_def sendChunk_def sendChunk_settle_def sendChunk_post_def
        setter_defs Let_def)

lemma startRecording_001_eq: "startRecording_001 render dev w = startRecording render dev w"
  by (cases dev) (simp_all add: startRecording_001_def start_defs Let_def)

text \<open>
  Claim C10. The two files agree on the accumulated texts: from every state, for every
  chunk response or failed upload and every outcome of the device request, \<open>sendChunk\<close>,
  \<open>startRecording\<close>, \<open>autoSpeak\<close> and \<open>manualSpeak\<close> of \<open>part_001\<close> leave the same
  original text, translated text and notes as those of \<open>part_000\<close>, and the same right
  to play automatically and the same queue of the synthesizer.
\<close>

theorem implementations_agree:
  "texts (sendChunk_001 render b resp w) = texts (sendChunk render b resp w) \<and>
   texts (startRecording_001 render dev w) = texts (startRecording render dev w) \<and>
   texts (autoSpeak_001 render w) = texts (autoSpeak render w) \<and>
   texts (manualSpeak_001 render w) = texts (manualSpeak render w) \<and>
   shouldAutoPlayRef (startRecording_001 render dev w) =
     shouldAutoPlayRef (startRecording render dev w) \<and>
   shouldAutoPlayRef (autoSpeak_001 render w) = shouldAutoPlayRef (autoSpeak render w) \<and>
   synth (autoSpeak_001 render w) = synth (autoSpeak render w) \<and>
   synth (manualSpeak_001 render w) = synth (manualSpeak render w)"
  by (simp add: texts_def sendChunk_001_ui startRecording_001_eq autoSpeak_001_def
        autoSpeak_def manualSpeak_001_def manualSpeak_def)

lemma consoles_differ:
  "console (sendChunk (ui mount) [1] (Json noisy) mount) \<noteq>
   console (sendChunk_001 (ui mount) [1] (Json noisy) mount)"
proof -
  have "regex_test corrupt_pattern ''Chunk CORRUPT, skipped''"
    by code_simp
  moreover have "regex_test noise_pattern ''Chunk CORRUPT, skipped''"
    by code_simp
  ultimately show ?thesis
    by (simp add: sendChunk_001_def sendChunk_def sendChunk_settle_def sendChunk_post_def
          setter_defs Let_def noisy_def truthy_def js_or_def mount_def)
qed

end
